theory Spec2Isabelle
  imports Complex_Main
begin

section \<open>Python values and exceptions\<close>

text \<open>
  The values that flow through the adapter and the middleware are the Python values
  that \<^verbatim>\<open>json\<close> reads and writes: \<^verbatim>\<open>None\<close>, booleans, integers, floats, strings,
  lists and dictionaries. A dictionary is the list of its items in insertion order;
  the keys of a dictionary are distinct, so a lookup finds at most one item.
  A float only matters here through its truth value: zero is false, every other
  float (infinities and NaN included) is true.
\<close>

datatype pyfloat = Finite rat | PosInf | NegInf | NaN

datatype pyval =
    PNone
  | PBool bool
  | PInt int
  | PFloat pyfloat
  | PStr string
  | PList "pyval list"
  | PDict "(string \<times> pyval) list"

text \<open>
  Exceptions. \<open>TransportError\<close> stands for what \<^verbatim>\<open>httpx.AsyncClient.post\<close> raises
  when no response arrives (connection refused, timeout, DNS failure), with its text;
  \<open>HTTPStatusError\<close> is raised by \<^verbatim>\<open>raise_for_status\<close> and carries the status code;
  \<open>JSONDecodeError\<close> is raised by \<^verbatim>\<open>response.json()\<close>; \<open>AttributeError\<close> by
  \<^verbatim>\<open>.get\<close> on an object that has no such method, with the name of the object's
  type. \<open>Exception p e\<close> is the generic exception
  \<^verbatim>\<open>Exception(f"{p}{str(e)}")\<close> raised while \<open>e\<close> is being handled: its message is
  \<open>p\<close> followed by the text of \<open>e\<close>, and \<open>e\<close> is its context.
  \<open>HandlerError\<close> is an exception of the downstream application.
\<close>

datatype exn =
    TransportError string
  | HTTPStatusError nat
  | JSONDecodeError string
  | AttributeError string
  | Exception string exn
  | HandlerError string

text \<open>Python's truth value of an object, as \<^verbatim>\<open>not x\<close> and \<^verbatim>\<open>x if c else y\<close> test it.\<close>

fun truthy :: "pyval \<Rightarrow> bool" where
  "truthy PNone = False"
| "truthy (PBool b) = b"
| "truthy (PInt i) = (i \<noteq> 0)"
| "truthy (PFloat f) = (f \<noteq> Finite 0)"
| "truthy (PStr s) = (s \<noteq> [])"
| "truthy (PList xs) = (xs \<noteq> [])"
| "truthy (PDict kvs) = (kvs \<noteq> [])"

fun type_name :: "pyval \<Rightarrow> string" where
  "type_name PNone = ''NoneType''"
| "type_name (PBool b) = ''bool''"
| "type_name (PInt i) = ''int''"
| "type_name (PFloat f) = ''float''"
| "type_name (PStr s) = ''str''"
| "type_name (PList xs) = ''list''"
| "type_name (PDict kvs) = ''dict''"

text \<open>
  \<^verbatim>\<open>obj.get(key, default)\<close>: on a dictionary the value stored under the key, or the
  default; on any other value read from JSON the attribute lookup fails.
\<close>

fun dict_get :: "pyval \<Rightarrow> string \<Rightarrow> pyval \<Rightarrow> exn + pyval" where
  "dict_get (PDict kvs) key dflt =
     Inr (case map_of kvs key of None \<Rightarrow> dflt | Some v \<Rightarrow> v)"
| "dict_get obj key dflt = Inl (AttributeError (type_name obj))"

section \<open>Strings\<close>

text \<open>
  \<^verbatim>\<open>s.startswith(p)\<close>. Strings are lists of bytes here; the prefix and the
  separators of this program are ASCII, for which bytes and code points agree.
\<close>

fun startswith :: "string \<Rightarrow> string \<Rightarrow> bool" where
  "startswith s [] = True"
| "startswith [] (p # ps) = False"
| "startswith (c # cs) (p # ps) = (c = p \<and> startswith cs ps)"

text \<open>
  \<^verbatim>\<open>s.split(sep)\<close> for a separator of one character: the pieces between the
  occurrences of the separator, empty pieces kept; the empty string gives one empty
  piece.
\<close>

fun str_split :: "string \<Rightarrow> char \<Rightarrow> string list" where
  "str_split [] sep = [[]]"
| "str_split (c # cs) sep =
     (if c = sep then [] # str_split cs sep
      else (case str_split cs sep of
              [] \<Rightarrow> [[c]]
            | w # ws \<Rightarrow> (c # w) # ws))"

text \<open>\<^verbatim>\<open>sep.join(ws)\<close>, the inverse of splitting.\<close>

fun str_join :: "char \<Rightarrow> string list \<Rightarrow> string" where
  "str_join sep [] = []"
| "str_join sep [w] = w"
| "str_join sep (w # v # ws) = w @ sep # str_join sep (v # ws)"

text \<open>ASCII lower case of a character, as \<^verbatim>\<open>str.lower\<close> acts on ASCII letters:
  the capital letters are the codes 65 to 90, and bit 5 makes the small letter.\<close>

definition lower :: "char \<Rightarrow> char" where
  "lower c =
     (if 65 \<le> (of_char c :: nat) \<and> (of_char c :: nat) \<le> 90
      then Char (digit0 c) (digit1 c) (digit2 c) (digit3 c) (digit4 c) True (digit6 c) (digit7 c)
      else c)"

section \<open>Requests and responses\<close>

text \<open>
  The inbound request as the middleware reads it: the path of its URL
  (\<^verbatim>\<open>request.url.path\<close>), its method (\<^verbatim>\<open>request.method\<close>) and its headers. The headers are the list the server hands over, names in lower
  case, in the order received.
\<close>

record request =
  url_path :: string
  http_method :: string
  headers :: "(string \<times> string) list"
  body :: string

text \<open>
  \<^verbatim>\<open>request.headers.get(key, default)\<close>: the lookup is case-insensitive (the key is
  put in lower case and compared with the stored names) and returns the first match.
\<close>

definition headers_get :: "(string \<times> string) list \<Rightarrow> string \<Rightarrow> string \<Rightarrow> string" where
  "headers_get hs key dflt =
     (case map_of hs (map lower key) of None \<Rightarrow> dflt | Some v \<Rightarrow> v)"

text \<open>
  A response of the application: the arguments of \<^verbatim>\<open>Response(...)\<close>, where headers
  and media type that are not given are \<open>[]\<close> and \<open>None\<close>.
\<close>

record response =
  content :: string
  status_code :: nat
  resp_headers :: "(string \<times> string) list"
  media_type :: "string option"

text \<open>
  The reply of the policy engine as \<^verbatim>\<open>httpx\<close> presents it: the status code, and
  what \<^verbatim>\<open>response.json()\<close> gives, the parsed body or the parser's exception.
\<close>

record httpx_response =
  http_status :: nat
  json :: "exn + pyval"

text \<open>
  \<^verbatim>\<open>response.raise_for_status()\<close> returns for a 2xx status and raises
  \<^verbatim>\<open>HTTPStatusError\<close> for every other one.
\<close>

definition is_success :: "httpx_response \<Rightarrow> bool" where
  "is_success r = (200 \<le> http_status r \<and> http_status r \<le> 299)"

definition raise_for_status :: "httpx_response \<Rightarrow> exn + unit" where
  "raise_for_status r =
     (if is_success r then Inr () else Inl (HTTPStatusError (http_status r)))"

text \<open>
  What a request does to the world outside the middleware, in order: a POST to a URL
  with a JSON body, and a call of the downstream application with a request.
\<close>

datatype event = Post string pyval | CallNext request

fun is_post :: "event \<Rightarrow> bool" where
  "is_post (Post url payload) = True"
| "is_post (CallNext r) = False"

fun is_call_next :: "event \<Rightarrow> bool" where
  "is_call_next (Post url payload) = False"
| "is_call_next (CallNext r) = True"

section \<open>The adapter: \<^verbatim>\<open>app/adapters/opa_adapter.py\<close>\<close>

text \<open>
  \<^verbatim>\<open>OPAAdapter\<close> holds the URL and the HTTP client. The client is the function that
  answers \<^verbatim>\<open>client.post(url, json=payload)\<close>: a response, or the exception raised
  when none arrives.
\<close>

record OPAAdapter =
  opa_url :: string
  client :: "string \<Rightarrow> pyval \<Rightarrow> exn + httpx_response"

definition OPAAdapter_init ::
  "string \<Rightarrow> (string \<Rightarrow> pyval \<Rightarrow> exn + httpx_response) \<Rightarrow> OPAAdapter" where
  "OPAAdapter_init url http = \<lparr>opa_url = url, client = http\<rparr>"

text \<open>
  \<^verbatim>\<open>await self.client.post(url, json=payload)\<close>: the client sends one POST with
  the JSON body to the URL, and gives the answer of the engine to that request. This
  is the only operation that makes a \<open>Post\<close> event.
\<close>

definition client_post ::
  "(string \<Rightarrow> pyval \<Rightarrow> exn + httpx_response) \<Rightarrow> string \<Rightarrow> pyval
     \<Rightarrow> (exn + httpx_response) \<times> event list" where
  "client_post http url payload = (http url payload, [Post url payload])"

text \<open>
  The body of the \<^verbatim>\<open>try\<close> block of \<^verbatim>\<open>check_permission\<close>: the value it returns or
  the exception that leaves it, and the events of the statements that ran.
\<close>

definition check_permission_try :: "OPAAdapter \<Rightarrow> pyval \<Rightarrow> (exn + pyval) \<times> event list" where
  "check_permission_try self input_data =
     (case client_post (client self) (opa_url self) (PDict [(''input'', input_data)]) of
        (Inl e, evs) \<Rightarrow> (Inl e, evs)
      | (Inr response, evs) \<Rightarrow>
          (case raise_for_status response of
             Inl e \<Rightarrow> (Inl e, evs)
           | Inr u \<Rightarrow>
               (case json response of
                  Inl e \<Rightarrow> (Inl e, evs)
                | Inr result \<Rightarrow>
                    (case dict_get result ''result'' (PDict []) of
                       Inl e \<Rightarrow> (Inl e, evs)
                     | Inr r \<Rightarrow> (dict_get r ''allow'' (PBool False), evs)))))"

text \<open>
  \<^verbatim>\<open>check_permission\<close>: the value returned or the exception raised, and the events
  of the call. Every exception of the \<^verbatim>\<open>try\<close> block is replaced by a generic one
  that quotes it.
\<close>

definition check_permission :: "OPAAdapter \<Rightarrow> pyval \<Rightarrow> (exn + pyval) \<times> event list" where
  "check_permission self input_data =
     (case check_permission_try self input_data of
        (Inl e, evs) \<Rightarrow> (Inl (Exception ''OPA policy check failed: '' e), evs)
      | (Inr v, evs) \<Rightarrow> (Inr v, evs))"

section \<open>The middleware: \<^verbatim>\<open>app/infrastructure/middleware.py\<close>\<close>

record OPAMiddleware =
  opa_adapter :: OPAAdapter

definition roles_header :: "request \<Rightarrow> string" where
  "roles_header request = headers_get (headers request) ''USER_ROLES'' []"

definition roles :: "request \<Rightarrow> string list" where
  "roles request =
     (if roles_header request \<noteq> [] then str_split (roles_header request) CHR '','' else [])"

definition opa_input :: "request \<Rightarrow> pyval" where
  "opa_input request =
     PDict [(''path'', PList (map PStr (str_split (url_path request) CHR ''/''))),
            (''roles'', PList (map PStr (roles request))),
            (''method'', PStr (http_method request))]"

definition unauthorized :: response where
  "unauthorized =
     \<lparr>content = ''Unauthorized'', status_code = 401, resp_headers = [], media_type = None\<rparr>"

text \<open>
  \<^verbatim>\<open>dispatch\<close>: the response returned or the exception that leaves the method, and
  the events in order. \<open>call_next\<close> is the downstream application. There is no
  \<^verbatim>\<open>try\<close> in \<^verbatim>\<open>dispatch\<close>: an exception of \<^verbatim>\<open>check_permission\<close> or of
  \<open>call_next\<close> leaves it as it is.
\<close>

definition dispatch ::
  "OPAMiddleware \<Rightarrow> request \<Rightarrow> (request \<Rightarrow> exn + response) \<Rightarrow> (exn + response) \<times> event list" where
  "dispatch self request call_next =
     (if startswith (url_path request) ''/health''
      then (call_next request, [CallNext request])
      else
        (case check_permission (opa_adapter self) (opa_input request) of
           (Inl e, evs) \<Rightarrow> (Inl e, evs)
         | (Inr is_allowed, evs) \<Rightarrow>
             (if \<not> truthy is_allowed then (Inr unauthorized, evs)
              else (call_next request, evs @ [CallNext request]))))"

section \<open>The application: \<^verbatim>\<open>app/main.py\<close>, \<^verbatim>\<open>app/core/config.py\<close>\<close>

record Settings =
  OPA_SERVER_URL :: string
  APP_NAME :: string
  DEBUG :: bool
  HOST :: string
  PORT :: int

definition default_settings :: Settings where
  "default_settings =
     \<lparr>OPA_SERVER_URL = ''http://localhost:8181/v1/data/sample'',
      APP_NAME = ''FastAPI with OPA'',
      DEBUG = False,
      HOST = ''0.0.0.0'',
      PORT = 8000\<rparr>"

text \<open>The middleware that \<^verbatim>\<open>main.py\<close> installs, for given settings and HTTP client.\<close>

definition app_middleware ::
  "Settings \<Rightarrow> (string \<Rightarrow> pyval \<Rightarrow> exn + httpx_response) \<Rightarrow> OPAMiddleware" where
  "app_middleware settings http =
     \<lparr>opa_adapter = OPAAdapter_init (OPA_SERVER_URL settings) http\<rparr>"

text \<open>The paths of the two health endpoints that \<^verbatim>\<open>main.py\<close> declares.\<close>

definition health_endpoints :: "string list" where
  "health_endpoints = [''/health/liveness'', ''/health/readiness'']"

section \<open>Example inputs\<close>

text \<open>A policy engine that answers every POST with the same reply, and one that cannot be reached.\<close>

definition engine_replies :: "httpx_response \<Rightarrow> string \<Rightarrow> pyval \<Rightarrow> exn + httpx_response" where
  "engine_replies r url payload = Inr r"

definition engine_fails :: "exn \<Rightarrow> string \<Rightarrow> pyval \<Rightarrow> exn + httpx_response" where
  "engine_fails e url payload = Inl e"

definition reply_allow :: httpx_response where
  "reply_allow =
     \<lparr>http_status = 200, json = Inr (PDict [(''result'', PDict [(''allow'', PBool True)])])\<rparr>"

definition reply_deny :: httpx_response where
  "reply_deny =
     \<lparr>http_status = 200, json = Inr (PDict [(''result'', PDict [(''allow'', PBool False)])])\<rparr>"

definition reply_no_result :: httpx_response where
  "reply_no_result = \<lparr>http_status = 200, json = Inr (PDict [])\<rparr>"

definition reply_no_allow :: httpx_response where
  "reply_no_allow = \<lparr>http_status = 200, json = Inr (PDict [(''result'', PDict [])])\<rparr>"

definition reply_allow_no :: httpx_response where
  "reply_allow_no =
     \<lparr>http_status = 200, json = Inr (PDict [(''result'', PDict [(''allow'', PStr ''no'')])])\<rparr>"

definition reply_list :: httpx_response where
  "reply_list = \<lparr>http_status = 200, json = Inr (PList [])\<rparr>"

definition reply_result_null :: httpx_response where
  "reply_result_null = \<lparr>http_status = 200, json = Inr (PDict [(''result'', PNone)])\<rparr>"

definition reply_unavailable :: httpx_response where
  "reply_unavailable = \<lparr>http_status = 503, json = Inr (PDict [])\<rparr>"

definition reply_not_json :: httpx_response where
  "reply_not_json = \<lparr>http_status = 200, json = Inl (JSONDecodeError ''Expecting value'')\<rparr>"

definition connection_refused :: exn where
  "connection_refused = TransportError ''All connection attempts failed''"

definition users_request :: request where
  "users_request =
     \<lparr>url_path = ''/v1/admin/users/bob'', http_method = ''GET'',
      headers = [(''user_roles'', ''admin'')], body = []\<rparr>"

definition alice_request :: request where
  "alice_request =
     \<lparr>url_path = ''/v1/admin/users/alice'', http_method = ''POST'',
      headers = [(''user_roles'', ''a,,b'')], body = []\<rparr>"

definition healthz_request :: request where
  "healthz_request =
     \<lparr>url_path = ''/healthz'', http_method = ''DELETE'',
      headers = [(''user_roles'', ''nobody'')], body = []\<rparr>"

text \<open>A downstream application that answers every request with the greeting of \<^verbatim>\<open>get_users\<close>.\<close>

definition greeting :: response where
  "greeting =
     \<lparr>content = ''Hello!! bob You have reached the Get Users'', status_code = 200,
      resp_headers = [], media_type = Some ''text/plain''\<rparr>"

definition greeting_app :: "request \<Rightarrow> exn + response" where
  "greeting_app request = Inr greeting"

section \<open>Facts about the string operations\<close>

lemma startswith_iff: "startswith s p \<longleftrightarrow> (\<exists>t. s = p @ t)"
  by (induction s p rule: startswith.induct) auto

lemma str_split_not_Nil: "str_split s sep \<noteq> []"
  by (induction s) (auto split: list.splits)

lemma str_join_Cons: "str_join sep ((c # w) # ws) = c # str_join sep (w # ws)"
  by (cases ws) simp_all

lemma str_join_split: "str_join sep (str_split s sep) = s"
  by (induction s) (auto split: list.splits simp: str_split_not_Nil str_join_Cons)

lemma str_split_no_sep: "w \<in> set (str_split s sep) \<Longrightarrow> sep \<notin> set w"
  by (induction s arbitrary: w) (auto split: list.splits if_splits)

lemma str_split_plain: "sep \<notin> set w \<Longrightarrow> str_split w sep = [w]"
  by (induction w) auto

lemma str_split_append: "sep \<notin> set w \<Longrightarrow> str_split (w @ sep # t) sep = w # str_split t sep"
  by (induction w) auto

lemma lower_USER_ROLES: "map lower ''USER_ROLES'' = ''user_roles''"
  by (simp add: lower_def)

lemma roles_header_lookup:
  "roles_header request =
     (case map_of (headers request) ''user_roles'' of None \<Rightarrow> [] | Some v \<Rightarrow> v)"
  unfolding roles_header_def headers_get_def lower_USER_ROLES by (rule refl)

section \<open>Facts about the adapter and the middleware\<close>

lemma snd_check_permission_try:
  "snd (check_permission_try self input_data) =
     [Post (opa_url self) (PDict [(''input'', input_data)])]"
  by (simp add: check_permission_try_def client_post_def split: sum.splits)

lemma fst_check_permission_try:
  "fst (check_permission_try self input_data) =
     (case client self (opa_url self) (PDict [(''input'', input_data)]) of
        Inl e \<Rightarrow> Inl e
      | Inr r \<Rightarrow>
          if \<not> is_success r then Inl (HTTPStatusError (http_status r))
          else (case json r of
                  Inl e \<Rightarrow> Inl e
                | Inr (PDict kvs) \<Rightarrow>
                    (case map_of kvs ''result'' of
                       None \<Rightarrow> Inr (PBool False)
                     | Some (PDict kvs') \<Rightarrow>
                         Inr (case map_of kvs' ''allow'' of None \<Rightarrow> PBool False | Some v \<Rightarrow> v)
                     | Some other \<Rightarrow> Inl (AttributeError (type_name other)))
                | Inr other \<Rightarrow> Inl (AttributeError (type_name other))))"
  by (simp add: check_permission_try_def client_post_def raise_for_status_def
      split: sum.splits pyval.splits option.splits)

lemma fst_check_permission:
  "fst (check_permission self input_data) =
     (case fst (check_permission_try self input_data) of
        Inl e \<Rightarrow> Inl (Exception ''OPA policy check failed: '' e)
      | Inr v \<Rightarrow> Inr v)"
  by (simp add: check_permission_def split: prod.splits sum.splits)

lemma snd_check_permission:
  "snd (check_permission self input_data) =
     [Post (opa_url self) (PDict [(''input'', input_data)])]"
  using snd_check_permission_try [of self input_data]
  by (auto simp: check_permission_def split: prod.splits sum.splits)

lemma dispatch_health:
  "startswith (url_path request) ''/health'' \<Longrightarrow>
     dispatch self request call_next = (call_next request, [CallNext request])"
  by (simp add: dispatch_def)

lemma dispatch_raised:
  assumes "\<not> startswith (url_path request) ''/health''"
    and "fst (check_permission (opa_adapter self) (opa_input request)) = Inl e"
  shows "dispatch self request call_next =
           (Inl e, [Post (opa_url (opa_adapter self)) (PDict [(''input'', opa_input request)])])"
proof -
  obtain out evs where ce: "check_permission (opa_adapter self) (opa_input request) = (out, evs)"
    by (cases "check_permission (opa_adapter self) (opa_input request)")
  from ce assms(2) have out: "out = Inl e" by simp
  from ce snd_check_permission [of "opa_adapter self" "opa_input request"]
  have evs: "evs = [Post (opa_url (opa_adapter self)) (PDict [(''input'', opa_input request)])]"
    by simp
  show ?thesis using assms(1) ce out evs by (simp add: dispatch_def)
qed

lemma dispatch_returned:
  assumes "\<not> startswith (url_path request) ''/health''"
    and "fst (check_permission (opa_adapter self) (opa_input request)) = Inr v"
  shows "dispatch self request call_next =
           (if truthy v
            then (call_next request,
                  [Post (opa_url (opa_adapter self)) (PDict [(''input'', opa_input request)]),
                   CallNext request])
            else (Inr unauthorized,
                  [Post (opa_url (opa_adapter self)) (PDict [(''input'', opa_input request)])]))"
proof -
  obtain out evs where ce: "check_permission (opa_adapter self) (opa_input request) = (out, evs)"
    by (cases "check_permission (opa_adapter self) (opa_input request)")
  from ce assms(2) have out: "out = Inr v" by simp
  from ce snd_check_permission [of "opa_adapter self" "opa_input request"]
  have evs: "evs = [Post (opa_url (opa_adapter self)) (PDict [(''input'', opa_input request)])]"
    by simp
  show ?thesis using assms(1) ce out evs by (simp add: dispatch_def)
qed

lemma call_next_only_if_truthy:
  assumes "CallNext r \<in> set (snd (dispatch self request call_next))"
  shows "r = request
       \<and> (startswith (url_path request) ''/health''
          \<or> (\<exists>v. fst (check_permission (opa_adapter self) (opa_input request)) = Inr v \<and> truthy v))"
proof (cases "startswith (url_path request) ''/health''")
  case True
  with assms show ?thesis by (simp add: dispatch_health)
next
  case False
  show ?thesis
  proof (cases "fst (check_permission (opa_adapter self) (opa_input request))")
    case (Inl e)
    with False assms show ?thesis by (simp add: dispatch_raised)
  next
    case (Inr v)
    with False assms show ?thesis by (simp add: dispatch_returned split: if_splits)
  qed
qed

lemmas fixture_defs = users_request_def alice_request_def healthz_request_def
  app_middleware_def OPAAdapter_init_def default_settings_def engine_replies_def engine_fails_def
  reply_allow_def reply_deny_def reply_allow_no_def reply_no_result_def reply_no_allow_def reply_list_def
  reply_result_null_def reply_unavailable_def reply_not_json_def connection_refused_def
  greeting_app_def greeting_def

lemmas run_defs = dispatch_def check_permission_def check_permission_try_def client_post_def
  raise_for_status_def is_success_def unauthorized_def

section \<open>The decisions of the middleware\<close>

text \<open>
  C1 (as amended). For every request whose path does not start with \<^verbatim>\<open>/health\<close>:
  if \<^verbatim>\<open>check_permission\<close> returns a false value, \<^verbatim>\<open>dispatch\<close> returns exactly the
  response with status 401 and body \<^verbatim>\<open>Unauthorized\<close>; if \<^verbatim>\<open>check_permission\<close> raises,
  \<^verbatim>\<open>dispatch\<close> returns no response: the same exception leaves it, since
  \<^verbatim>\<open>dispatch\<close> has no handler for it. In both cases the downstream handler is not
  invoked.
\<close>

theorem dispatch_not_allowed:
  assumes "\<not> startswith (url_path request) ''/health''"
  shows "(fst (check_permission (opa_adapter self) (opa_input request)) = Inr v \<and> \<not> truthy v \<longrightarrow>
            fst (dispatch self request call_next) = Inr unauthorized
            \<and> filter is_call_next (snd (dispatch self request call_next)) = [])
       \<and> (fst (check_permission (opa_adapter self) (opa_input request)) = Inl e \<longrightarrow>
            fst (dispatch self request call_next) = Inl e
            \<and> filter is_call_next (snd (dispatch self request call_next)) = [])"
  using assms
  by (auto simp: dispatch_raised dispatch_returned)

theorem dispatch_not_allowed_witness:
  "\<not> startswith (url_path users_request) ''/health''
   \<and> fst (check_permission (opa_adapter (app_middleware default_settings (engine_replies reply_deny)))
            (opa_input users_request)) = Inr (PBool False)
   \<and> \<not> truthy (PBool False)
   \<and> dispatch (app_middleware default_settings (engine_replies reply_deny)) users_request greeting_app
       = (Inr \<lparr>content = ''Unauthorized'', status_code = 401, resp_headers = [], media_type = None\<rparr>,
          [Post ''http://localhost:8181/v1/data/sample'' (PDict [(''input'', opa_input users_request)])])
   \<and> fst (check_permission (opa_adapter (app_middleware default_settings (engine_fails connection_refused)))
            (opa_input users_request)) = Inl (Exception ''OPA policy check failed: '' connection_refused)
   \<and> fst (dispatch (app_middleware default_settings (engine_fails connection_refused)) users_request greeting_app)
       = Inl (Exception ''OPA policy check failed: '' connection_refused)"
  using dispatch_not_allowed [where request = users_request
      and self = "app_middleware default_settings (engine_replies reply_deny)"
      and v = "PBool False" and call_next = greeting_app]
    dispatch_not_allowed [where request = users_request
      and self = "app_middleware default_settings (engine_fails connection_refused)"
      and call_next = greeting_app
      and e = "Exception ''OPA policy check failed: '' connection_refused"]
  by (simp add: run_defs users_request_def app_middleware_def OPAAdapter_init_def
      default_settings_def engine_replies_def engine_fails_def reply_deny_def)

text \<open>
  C1 as stated fails: with the policy engine unreachable, \<^verbatim>\<open>check_permission\<close> raises
  and the outcome of \<^verbatim>\<open>dispatch\<close> is that exception, not the 401 response.
\<close>

theorem dispatch_engine_failure_counterexample:
  "\<not> startswith (url_path users_request) ''/health''
   \<and> fst (check_permission (opa_adapter (app_middleware default_settings (engine_fails connection_refused)))
            (opa_input users_request)) = Inl (Exception ''OPA policy check failed: '' connection_refused)
   \<and> fst (dispatch (app_middleware default_settings (engine_fails connection_refused)) users_request greeting_app)
       = Inl (Exception ''OPA policy check failed: '' connection_refused)
   \<and> fst (dispatch (app_middleware default_settings (engine_fails connection_refused)) users_request greeting_app)
       \<noteq> Inr unauthorized"
  by (simp add: run_defs users_request_def app_middleware_def OPAAdapter_init_def
      default_settings_def engine_fails_def)

text \<open>
  C2. The middleware is to invoke the downstream handler only if the path starts with
  \<^verbatim>\<open>/health\<close> or \<^verbatim>\<open>check_permission\<close> returned the verdict \<^verbatim>\<open>True\<close>. The code
  does not keep to this: when the engine answers 200 with
  \<^verbatim>\<open>{"result": {"allow": "no"}}\<close>, \<^verbatim>\<open>check_permission\<close>, declared to return a
  \<^verbatim>\<open>bool\<close>, returns the string \<^verbatim>\<open>no\<close>; the test \<^verbatim>\<open>not is_allowed\<close> takes a
  non-empty string for true, and the request is forwarded.
\<close>

theorem dispatch_forwards_on_string_verdict:
  "\<not> startswith (url_path users_request) ''/health''
   \<and> is_success reply_allow_no
   \<and> json reply_allow_no = Inr (PDict [(''result'', PDict [(''allow'', PStr ''no'')])])
   \<and> fst (check_permission (opa_adapter (app_middleware default_settings (engine_replies reply_allow_no)))
            (opa_input users_request)) = Inr (PStr ''no'')
   \<and> fst (check_permission (opa_adapter (app_middleware default_settings (engine_replies reply_allow_no)))
            (opa_input users_request)) \<noteq> Inr (PBool True)
   \<and> dispatch (app_middleware default_settings (engine_replies reply_allow_no)) users_request greeting_app
       = (Inr greeting,
          [Post ''http://localhost:8181/v1/data/sample'' (PDict [(''input'', opa_input users_request)]),
           CallNext users_request])"
  by (simp add: run_defs fixture_defs)

text \<open>
  C9. For every request whose path does not start with \<^verbatim>\<open>/health\<close> and for which
  \<^verbatim>\<open>check_permission\<close> returns a true value, \<^verbatim>\<open>dispatch\<close> invokes the downstream
  handler once, with the request it received, and its outcome is the handler's
  outcome, unchanged.
\<close>

theorem forward_unchanged:
  assumes "\<not> startswith (url_path request) ''/health''"
    and "fst (check_permission (opa_adapter self) (opa_input request)) = Inr v"
    and "truthy v"
  shows "fst (dispatch self request call_next) = call_next request
       \<and> filter is_call_next (snd (dispatch self request call_next)) = [CallNext request]"
  using assms by (simp add: dispatch_returned)

theorem forward_unchanged_witness:
  "\<not> startswith (url_path users_request) ''/health''
   \<and> fst (check_permission (opa_adapter (app_middleware default_settings (engine_replies reply_allow)))
            (opa_input users_request)) = Inr (PBool True)
   \<and> truthy (PBool True)
   \<and> fst (dispatch (app_middleware default_settings (engine_replies reply_allow))
            users_request greeting_app) = Inr greeting
   \<and> filter is_call_next
       (snd (dispatch (app_middleware default_settings (engine_replies reply_allow))
               users_request greeting_app)) = [CallNext users_request]"
proof -
  have a: "\<not> startswith (url_path users_request) ''/health''"
    by (simp add: users_request_def)
  have b: "fst (check_permission (opa_adapter (app_middleware default_settings (engine_replies reply_allow)))
            (opa_input users_request)) = Inr (PBool True)"
    by (simp add: run_defs fixture_defs)
  have c: "truthy (PBool True)" by simp
  from forward_unchanged [OF a b c, of greeting_app] a b c show ?thesis
    by (simp add: greeting_app_def)
qed

text \<open>
  C5. For every request whose path starts with \<^verbatim>\<open>/health\<close>, \<^verbatim>\<open>dispatch\<close> makes no
  POST to the policy engine and hands the request to the downstream handler, whose
  outcome it returns; this holds for every method and every list of headers.
\<close>

theorem health_bypass:
  assumes "startswith (url_path request) ''/health''"
  shows "dispatch self request call_next = (call_next request, [CallNext request])
       \<and> filter is_post (snd (dispatch self request call_next)) = []
       \<and> dispatch self (request\<lparr>http_method := m, headers := hs\<rparr>) call_next
           = (call_next (request\<lparr>http_method := m, headers := hs\<rparr>),
              [CallNext (request\<lparr>http_method := m, headers := hs\<rparr>)])"
  using assms by (simp add: dispatch_health)

theorem health_bypass_witness:
  "startswith (url_path \<lparr>url_path = ''/health/liveness'', http_method = ''GET'', headers = [], body = []\<rparr>)
     ''/health''
   \<and> dispatch (app_middleware default_settings (engine_fails connection_refused))
        \<lparr>url_path = ''/health/liveness'', http_method = ''GET'', headers = [], body = []\<rparr> greeting_app
      = (Inr greeting,
         [CallNext \<lparr>url_path = ''/health/liveness'', http_method = ''GET'', headers = [], body = []\<rparr>])
   \<and> dispatch (app_middleware default_settings (engine_fails connection_refused))
        \<lparr>url_path = ''/health/liveness'', http_method = ''PUT'', headers = [(''user_roles'', ''x'')],
         body = []\<rparr> greeting_app
      = (Inr greeting,
         [CallNext \<lparr>url_path = ''/health/liveness'', http_method = ''PUT'',
                    headers = [(''user_roles'', ''x'')], body = []\<rparr>])"
  using health_bypass [where request = "\<lparr>url_path = ''/health/liveness'', http_method = ''GET'', headers = [], body = []\<rparr>"
      and self = "app_middleware default_settings (engine_fails connection_refused)"
      and call_next = greeting_app and m = "''PUT''" and hs = "[(''user_roles'', ''x'')]"]
  by (simp add: greeting_app_def)

text \<open>
  C10. The bypass is a prefix test on the path: it holds exactly for the paths that
  are \<^verbatim>\<open>/health\<close> followed by anything. Every such request is handed to the
  downstream handler with no POST to the policy engine; this includes \<^verbatim>\<open>/healthz\<close>
  and \<^verbatim>\<open>/healthcheck\<close>, which are not among the declared health endpoints.
\<close>

theorem health_prefix_test:
  "(startswith (url_path request) ''/health'' \<longleftrightarrow> (\<exists>rest. url_path request = ''/health'' @ rest))
   \<and> (url_path request = ''/health'' @ rest \<longrightarrow>
        dispatch self request call_next = (call_next request, [CallNext request])
        \<and> filter is_post (snd (dispatch self request call_next)) = [])
   \<and> ''/healthz'' \<notin> set health_endpoints \<and> ''/healthcheck'' \<notin> set health_endpoints"
proof -
  have "startswith (''/health'' @ rest) ''/health''" by simp
  then show ?thesis
    by (auto simp: startswith_iff [of "url_path request"] dispatch_health health_endpoints_def
        simp del: startswith.simps)
qed

theorem health_prefix_test_witness:
  "url_path healthz_request = ''/health'' @ ''z''
   \<and> dispatch (app_middleware default_settings (engine_fails connection_refused))
        healthz_request greeting_app = (Inr greeting, [CallNext healthz_request])
   \<and> url_path (healthz_request\<lparr>url_path := ''/healthcheck''\<rparr>) = ''/health'' @ ''check''
   \<and> dispatch (app_middleware default_settings (engine_replies reply_deny))
        (healthz_request\<lparr>url_path := ''/healthcheck''\<rparr>) greeting_app
       = (Inr greeting, [CallNext (healthz_request\<lparr>url_path := ''/healthcheck''\<rparr>)])"
  using
    health_prefix_test [of healthz_request "''z''"
      "app_middleware default_settings (engine_fails connection_refused)" greeting_app]
    health_prefix_test [of "healthz_request\<lparr>url_path := ''/healthcheck''\<rparr>" "''check''"
      "app_middleware default_settings (engine_replies reply_deny)" greeting_app]
  by (simp add: healthz_request_def greeting_app_def)

text \<open>
  C8. For every request whose path does not start with \<^verbatim>\<open>/health\<close>, the POST
  events of \<^verbatim>\<open>dispatch\<close> are exactly the events of one \<^verbatim>\<open>client.post\<close> of the
  adapter's client: one POST, to the URL of the adapter (which \<^verbatim>\<open>main.py\<close> takes from
  the settings), with the body that holds the decision query (path pieces, roles,
  method, in this order) under the key \<^verbatim>\<open>input\<close>. There is no second attempt,
  whatever the answer, and the verdict of \<^verbatim>\<open>check_permission\<close> is computed from the
  client's answer to this very request.
\<close>

theorem one_policy_call:
  assumes "\<not> startswith (url_path request) ''/health''"
  shows "filter is_post (snd (dispatch self request call_next))
           = snd (client_post (client (opa_adapter self)) (opa_url (opa_adapter self))
                (PDict [(''input'',
                   PDict [(''path'', PList (map PStr (str_split (url_path request) CHR ''/''))),
                          (''roles'', PList (map PStr (roles request))),
                          (''method'', PStr (http_method request))])]))
       \<and> filter is_post (snd (dispatch self request call_next))
           = [Post (opa_url (opa_adapter self))
                (PDict [(''input'',
                   PDict [(''path'', PList (map PStr (str_split (url_path request) CHR ''/''))),
                          (''roles'', PList (map PStr (roles request))),
                          (''method'', PStr (http_method request))])])]
       \<and> fst (check_permission (opa_adapter self) (opa_input request))
           = (case fst (client_post (client (opa_adapter self)) (opa_url (opa_adapter self))
                (PDict [(''input'',
                   PDict [(''path'', PList (map PStr (str_split (url_path request) CHR ''/''))),
                          (''roles'', PList (map PStr (roles request))),
                          (''method'', PStr (http_method request))])])) of
                Inl e \<Rightarrow> Inl (Exception ''OPA policy check failed: '' e)
              | Inr response \<Rightarrow>
                  (case raise_for_status response of
                     Inl e \<Rightarrow> Inl (Exception ''OPA policy check failed: '' e)
                   | Inr u \<Rightarrow>
                       (case json response of
                          Inl e \<Rightarrow> Inl (Exception ''OPA policy check failed: '' e)
                        | Inr result \<Rightarrow>
                            (case dict_get result ''result'' (PDict []) of
                               Inl e \<Rightarrow> Inl (Exception ''OPA policy check failed: '' e)
                             | Inr res \<Rightarrow>
                                 (case dict_get res ''allow'' (PBool False) of
                                    Inl e \<Rightarrow> Inl (Exception ''OPA policy check failed: '' e)
                                  | Inr v \<Rightarrow> Inr v)))))
       \<and> opa_url (opa_adapter (app_middleware settings http)) = OPA_SERVER_URL settings"
proof -
  let ?payload = "PDict [(''input'',
                   PDict [(''path'', PList (map PStr (str_split (url_path request) CHR ''/''))),
                          (''roles'', PList (map PStr (roles request))),
                          (''method'', PStr (http_method request))])]"
  have query: "PDict [(''input'', opa_input request)] = ?payload"
    by (simp add: opa_input_def)
  have events: "filter is_post (snd (dispatch self request call_next))
                  = [Post (opa_url (opa_adapter self)) ?payload]"
  proof (cases "fst (check_permission (opa_adapter self) (opa_input request))")
    case (Inl e)
    with assms show ?thesis by (simp add: dispatch_raised query)
  next
    case (Inr v)
    with assms show ?thesis by (simp add: dispatch_returned query)
  qed
  have sent: "snd (client_post (client (opa_adapter self)) (opa_url (opa_adapter self)) ?payload)
                = [Post (opa_url (opa_adapter self)) ?payload]"
    by (simp add: client_post_def)
  have verdict: "fst (check_permission (opa_adapter self) (opa_input request))
           = (case fst (client_post (client (opa_adapter self)) (opa_url (opa_adapter self)) ?payload) of
                Inl e \<Rightarrow> Inl (Exception ''OPA policy check failed: '' e)
              | Inr response \<Rightarrow>
                  (case raise_for_status response of
                     Inl e \<Rightarrow> Inl (Exception ''OPA policy check failed: '' e)
                   | Inr u \<Rightarrow>
                       (case json response of
                          Inl e \<Rightarrow> Inl (Exception ''OPA policy check failed: '' e)
                        | Inr result \<Rightarrow>
                            (case dict_get result ''result'' (PDict []) of
                               Inl e \<Rightarrow> Inl (Exception ''OPA policy check failed: '' e)
                             | Inr res \<Rightarrow>
                                 (case dict_get res ''allow'' (PBool False) of
                                    Inl e \<Rightarrow> Inl (Exception ''OPA policy check failed: '' e)
                                  | Inr v \<Rightarrow> Inr v)))))"
    unfolding query [symmetric]
    by (simp add: check_permission_def check_permission_try_def client_post_def
        split: sum.splits)
  have url: "opa_url (opa_adapter (app_middleware settings http)) = OPA_SERVER_URL settings"
    by (simp add: app_middleware_def OPAAdapter_init_def)
  from events sent verdict url show ?thesis by simp
qed

theorem one_policy_call_witness:
  "\<not> startswith (url_path users_request) ''/health''
   \<and> filter is_post
       (snd (dispatch (app_middleware default_settings (engine_replies reply_allow))
               users_request greeting_app))
     = [Post ''http://localhost:8181/v1/data/sample''
          (PDict [(''input'',
             PDict [(''path'', PList [PStr [], PStr ''v1'', PStr ''admin'', PStr ''users'', PStr ''bob'']),
                    (''roles'', PList [PStr ''admin'']),
                    (''method'', PStr ''GET'')])])]
   \<and> fst (client_post (engine_replies reply_allow) ''http://localhost:8181/v1/data/sample''
            (PDict [(''input'',
               PDict [(''path'', PList [PStr [], PStr ''v1'', PStr ''admin'', PStr ''users'', PStr ''bob'']),
                      (''roles'', PList [PStr ''admin'']),
                      (''method'', PStr ''GET'')])]))
       = Inr reply_allow
   \<and> fst (check_permission (opa_adapter (app_middleware default_settings (engine_replies reply_allow)))
            (opa_input users_request)) = Inr (PBool True)"
  using one_policy_call [where request = users_request
      and self = "app_middleware default_settings (engine_replies reply_allow)"
      and call_next = greeting_app and settings = default_settings
      and http = "engine_replies reply_allow"]
  by (simp add: users_request_def roles_def roles_header_lookup default_settings_def
      app_middleware_def OPAAdapter_init_def client_post_def engine_replies_def reply_allow_def
      raise_for_status_def is_success_def)

section \<open>The decision query\<close>

text \<open>
  C6. The roles derived from the \<^verbatim>\<open>USER_ROLES\<close> header are: none when the header is
  absent or is the empty string; exactly \<open>a\<close> and \<open>b\<close> when the header is \<open>a,b\<close>; and
  \<open>a\<close>, the empty string and \<open>b\<close> when the header is \<open>a,,b\<close> (for \<open>a\<close> and \<open>b\<close>
  without commas). These roles are the \<^verbatim>\<open>roles\<close> entry of the decision query.
\<close>

theorem roles_of_header:
  "(map_of (headers request) ''user_roles'' = None \<longrightarrow> roles request = [])
   \<and> (map_of (headers request) ''user_roles'' = Some [] \<longrightarrow> roles request = [])
   \<and> (map_of (headers request) ''user_roles'' = Some (a @ '','' @ b)
        \<and> CHR '','' \<notin> set a \<and> CHR '','' \<notin> set b \<longrightarrow>
        roles request = [a, b] \<and> set (roles request) = {a, b})
   \<and> (map_of (headers request) ''user_roles'' = Some (a @ '',,'' @ b)
        \<and> CHR '','' \<notin> set a \<and> CHR '','' \<notin> set b \<longrightarrow>
        roles request = [a, [], b] \<and> [] \<in> set (roles request))
   \<and> dict_get (opa_input request) ''roles'' PNone = Inr (PList (map PStr (roles request)))"
  by (simp add: roles_def roles_header_lookup opa_input_def str_split_append str_split_plain)

theorem roles_of_header_witness:
  "roles \<lparr>url_path = ''/x'', http_method = ''GET'', headers = [], body = []\<rparr> = []
   \<and> roles \<lparr>url_path = ''/x'', http_method = ''GET'', headers = [(''user_roles'', [])], body = []\<rparr> = []
   \<and> roles \<lparr>url_path = ''/x'', http_method = ''GET'', headers = [(''user_roles'', ''a,b'')], body = []\<rparr>
       = [''a'', ''b'']
   \<and> roles \<lparr>url_path = ''/x'', http_method = ''GET'', headers = [(''user_roles'', ''a,,b'')], body = []\<rparr>
       = [''a'', [], ''b'']"
  using
    roles_of_header [of "\<lparr>url_path = ''/x'', http_method = ''GET'', headers = [], body = []\<rparr>"]
    roles_of_header [of "\<lparr>url_path = ''/x'', http_method = ''GET'', headers = [(''user_roles'', [])], body = []\<rparr>"]
    roles_of_header [of "\<lparr>url_path = ''/x'', http_method = ''GET'', headers = [(''user_roles'', ''a,b'')], body = []\<rparr>" "''a''" "''b''"]
    roles_of_header [of "\<lparr>url_path = ''/x'', http_method = ''GET'', headers = [(''user_roles'', ''a,,b'')], body = []\<rparr>" "''a''" "''b''"]
  by simp

text \<open>
  C7. The \<^verbatim>\<open>path\<close> entry of the decision query is the request path split on
  \<^verbatim>\<open>/\<close>: the pieces contain no \<^verbatim>\<open>/\<close> and joined with \<^verbatim>\<open>/\<close> give the path back; a
  leading slash gives an empty first piece; and \<^verbatim>\<open>/v1/admin/users/alice\<close> gives
  exactly the five pieces empty, \<^verbatim>\<open>v1\<close>, \<^verbatim>\<open>admin\<close>, \<^verbatim>\<open>users\<close>, \<^verbatim>\<open>alice\<close>.
\<close>

theorem path_segments:
  "dict_get (opa_input request) ''path'' PNone
     = Inr (PList (map PStr (str_split (url_path request) CHR ''/'')))
   \<and> str_join CHR ''/'' (str_split (url_path request) CHR ''/'') = url_path request
   \<and> (\<forall>w \<in> set (str_split (url_path request) CHR ''/''). CHR ''/'' \<notin> set w)
   \<and> (url_path request = CHR ''/'' # rest \<longrightarrow>
        str_split (url_path request) CHR ''/'' = [] # str_split rest CHR ''/'')
   \<and> (url_path request = ''/v1/admin/users/alice'' \<longrightarrow>
        dict_get (opa_input request) ''path'' PNone
          = Inr (PList [PStr [], PStr ''v1'', PStr ''admin'', PStr ''users'', PStr ''alice'']))"
  by (simp add: opa_input_def str_join_split str_split_no_sep)

theorem path_segments_witness:
  "url_path alice_request = ''/v1/admin/users/alice''
   \<and> dict_get (opa_input alice_request) ''path'' PNone
       = Inr (PList [PStr [], PStr ''v1'', PStr ''admin'', PStr ''users'', PStr ''alice''])
   \<and> str_split (url_path alice_request) CHR ''/'' = [[], ''v1'', ''admin'', ''users'', ''alice'']
   \<and> str_join CHR ''/'' [[], ''v1'', ''admin'', ''users'', ''alice''] = url_path alice_request"
  using path_segments [of alice_request "''v1/admin/users/alice''"]
  by (simp add: alice_request_def)

section \<open>The policy client\<close>

text \<open>
  C3 (as amended). When the POST raises (no response arrived), when the response has a
  status that is not 2xx, when the body is not valid JSON (\<^verbatim>\<open>response.json()\<close>
  raises), or when the value read, or its \<^verbatim>\<open>result\<close> member, is not a JSON object,
  \<^verbatim>\<open>check_permission\<close> raises the generic exception whose message quotes the
  underlying exception; it does not return, so it does not return \<^verbatim>\<open>False\<close>. Bodies
  that are JSON objects and only lack \<^verbatim>\<open>result\<close> or \<^verbatim>\<open>allow\<close> are not among these
  cases.
\<close>

theorem check_permission_raises:
  "(client self (opa_url self) (PDict [(''input'', input_data)]) = Inl e \<longrightarrow>
      fst (check_permission self input_data) = Inl (Exception ''OPA policy check failed: '' e))
   \<and> (client self (opa_url self) (PDict [(''input'', input_data)]) = Inr r \<and> \<not> is_success r \<longrightarrow>
      fst (check_permission self input_data)
        = Inl (Exception ''OPA policy check failed: '' (HTTPStatusError (http_status r))))
   \<and> (client self (opa_url self) (PDict [(''input'', input_data)]) = Inr r \<and> is_success r
        \<and> json r = Inl e \<longrightarrow>
      fst (check_permission self input_data) = Inl (Exception ''OPA policy check failed: '' e))
   \<and> (client self (opa_url self) (PDict [(''input'', input_data)]) = Inr r \<and> is_success r
        \<and> json r = Inr parsed \<and> (\<forall>kvs. parsed \<noteq> PDict kvs) \<longrightarrow>
      fst (check_permission self input_data)
        = Inl (Exception ''OPA policy check failed: '' (AttributeError (type_name parsed))))
   \<and> (client self (opa_url self) (PDict [(''input'', input_data)]) = Inr r \<and> is_success r
        \<and> json r = Inr (PDict kvs) \<and> map_of kvs ''result'' = Some res \<and> (\<forall>kvs'. res \<noteq> PDict kvs') \<longrightarrow>
      fst (check_permission self input_data)
        = Inl (Exception ''OPA policy check failed: '' (AttributeError (type_name res))))"
  by (auto simp: fst_check_permission fst_check_permission_try split: pyval.splits)

theorem check_permission_raises_witness:
  "fst (check_permission (OPAAdapter_init ''http://opa'' (engine_fails connection_refused))
          (opa_input users_request))
     = Inl (Exception ''OPA policy check failed: '' connection_refused)
   \<and> \<not> is_success reply_unavailable
   \<and> fst (check_permission (OPAAdapter_init ''http://opa'' (engine_replies reply_unavailable))
          (opa_input users_request))
     = Inl (Exception ''OPA policy check failed: '' (HTTPStatusError 503))
   \<and> is_success reply_not_json
   \<and> fst (check_permission (OPAAdapter_init ''http://opa'' (engine_replies reply_not_json))
          (opa_input users_request))
     = Inl (Exception ''OPA policy check failed: '' (JSONDecodeError ''Expecting value''))
   \<and> is_success reply_result_null
   \<and> json reply_result_null = Inr (PDict [(''result'', PNone)])
   \<and> fst (check_permission (OPAAdapter_init ''http://opa'' (engine_replies reply_result_null))
          (opa_input users_request))
     = Inl (Exception ''OPA policy check failed: '' (AttributeError ''NoneType''))"
  using
    check_permission_raises [of "OPAAdapter_init ''http://opa'' (engine_fails connection_refused)"
      "opa_input users_request" connection_refused]
    check_permission_raises [of "OPAAdapter_init ''http://opa'' (engine_replies reply_unavailable)"
      "opa_input users_request" _ reply_unavailable]
    check_permission_raises [of "OPAAdapter_init ''http://opa'' (engine_replies reply_not_json)"
      "opa_input users_request" "JSONDecodeError ''Expecting value''" reply_not_json]
    check_permission_raises [where self = "OPAAdapter_init ''http://opa'' (engine_replies reply_result_null)"
      and input_data = "opa_input users_request" and r = reply_result_null
      and kvs = "[(''result'', PNone)]" and res = PNone]
  by (simp add: fixture_defs is_success_def)

text \<open>
  C3 as stated fails: a 2xx response whose body is the JSON object \<^verbatim>\<open>{}\<close> cannot be
  read as the expected structure, there is no \<^verbatim>\<open>result.allow\<close> in it, and
  \<^verbatim>\<open>check_permission\<close> returns \<^verbatim>\<open>False\<close> instead of raising.
\<close>

theorem check_permission_lenient_counterexample:
  "client (OPAAdapter_init ''http://opa'' (engine_replies reply_no_result)) ''http://opa''
       (PDict [(''input'', opa_input users_request)]) = Inr reply_no_result
   \<and> is_success reply_no_result
   \<and> json reply_no_result = Inr (PDict [])
   \<and> dict_get (PDict []) ''result'' PNone = Inr PNone
   \<and> fst (check_permission (OPAAdapter_init ''http://opa'' (engine_replies reply_no_result))
          (opa_input users_request)) = Inr (PBool False)"
  by (simp add: run_defs fixture_defs)

text \<open>
  C4 (as amended). For every 2xx response whose body is a JSON object in which the
  \<^verbatim>\<open>result\<close> member is absent, or in which \<^verbatim>\<open>result\<close> is an object whose
  \<^verbatim>\<open>allow\<close> member is absent, \<^verbatim>\<open>check_permission\<close> returns \<^verbatim>\<open>False\<close>.
\<close>

theorem check_permission_missing_field:
  assumes "client self (opa_url self) (PDict [(''input'', input_data)]) = Inr r"
    and "is_success r"
    and "json r = Inr (PDict kvs)"
    and "map_of kvs ''result'' = None
         \<or> (\<exists>kvs'. map_of kvs ''result'' = Some (PDict kvs') \<and> map_of kvs' ''allow'' = None)"
  shows "fst (check_permission self input_data) = Inr (PBool False)"
  using assms by (auto simp: fst_check_permission fst_check_permission_try)

theorem check_permission_missing_field_witness:
  "is_success reply_no_result \<and> json reply_no_result = Inr (PDict [])
   \<and> fst (check_permission (OPAAdapter_init ''http://opa'' (engine_replies reply_no_result))
          (opa_input users_request)) = Inr (PBool False)
   \<and> is_success reply_no_allow \<and> json reply_no_allow = Inr (PDict [(''result'', PDict [])])
   \<and> fst (check_permission (OPAAdapter_init ''http://opa'' (engine_replies reply_no_allow))
          (opa_input users_request)) = Inr (PBool False)"
  using
    check_permission_missing_field [of "OPAAdapter_init ''http://opa'' (engine_replies reply_no_result)"
      "opa_input users_request" reply_no_result "[]"]
    check_permission_missing_field [of "OPAAdapter_init ''http://opa'' (engine_replies reply_no_allow)"
      "opa_input users_request" reply_no_allow "[(''result'', PDict [])]"]
  by (simp add: fixture_defs is_success_def)

text \<open>
  C4 as stated fails: a 2xx response whose body is the valid JSON text \<^verbatim>\<open>[]\<close> has not
  the expected shape, and \<^verbatim>\<open>check_permission\<close> raises instead of returning
  \<^verbatim>\<open>False\<close>.
\<close>

theorem check_permission_other_shape_counterexample:
  "is_success reply_list \<and> json reply_list = Inr (PList [])
   \<and> fst (check_permission (OPAAdapter_init ''http://opa'' (engine_replies reply_list))
          (opa_input users_request))
     = Inl (Exception ''OPA policy check failed: '' (AttributeError ''list''))
   \<and> fst (check_permission (OPAAdapter_init ''http://opa'' (engine_replies reply_list))
          (opa_input users_request))
     \<noteq> Inr (PBool False)"
  by (simp add: run_defs fixture_defs)

end
